theory Spec2Isabelle
  imports Main "HOL-Library.AList"
begin

section \<open>Python strings\<close>

text \<open>
  A Python \<open>str\<close> is modelled as a \<open>string\<close>; a character stands for the code point
  of the same number (U+0000 to U+00FF). The three string methods the program calls are
  \<open>str.lower\<close>, \<open>str.strip\<close> (no argument) and \<open>str.split\<close> (with a separator).
\<close>

definition lower_char :: "char \<Rightarrow> char" where
  "lower_char c =
     (let n = (of_char c :: nat)
      in if (65 \<le> n \<and> n \<le> 90) \<or> (192 \<le> n \<and> n \<le> 222 \<and> n \<noteq> 215)
         then char_of (n + 32) else c)"

definition lower :: "string \<Rightarrow> string" where
  "lower s = map lower_char s"

definition isspace :: "char \<Rightarrow> bool" where
  "isspace c =
     (let n = (of_char c :: nat)
      in (9 \<le> n \<and> n \<le> 13) \<or> (28 \<le> n \<and> n \<le> 32) \<or> n = 133 \<or> n = 160)"

definition strip :: "string \<Rightarrow> string" where
  "strip s = rev (dropWhile isspace (rev (dropWhile isspace s)))"

fun split :: "char \<Rightarrow> string \<Rightarrow> string list" where
  "split sep [] = [[]]"
| "split sep (c # cs) =
     (if c = sep then [] # split sep cs
      else (case split sep cs of
              [] \<Rightarrow> [[c]]
            | w # ws \<Rightarrow> (c # w) # ws))"

section \<open>The process environment and the file system\<close>

text \<open>
  \<open>os.environ\<close> is an insertion-ordered dictionary: an association list in which
  assigning an existing key replaces its value in place and assigning a new key appends
  it (\<open>AList.update\<close>). Keys are case-sensitive (POSIX).

  A file system maps a path to what is found there. A dotenv file is given by the
  bindings that python-dotenv parses from it, in file order; a binding without \<open>=\<close>
  has the value \<open>None\<close>. Variable expansion inside values is not modelled: the
  bindings are the resolved ones.
\<close>

type_synonym environ = "(string \<times> string) list"

type_synonym bindings = "(string \<times> string option) list"

datatype fs_entry = RegularFile bindings | Directory

type_synonym filesystem = "string \<rightharpoonup> fs_entry"

definition getenv :: "environ \<Rightarrow> string \<Rightarrow> string option" where
  "getenv environ key = map_of environ key"

definition path_exists :: "filesystem \<Rightarrow> string \<Rightarrow> bool" where
  "path_exists fs path = (case fs path of None \<Rightarrow> False | Some _ \<Rightarrow> True)"

text \<open>
  \<open>DotEnv.dict()\<close>: the ordered dictionary of the bindings of the file; a key bound
  twice keeps its first position and its last value. A path that is not a regular
  file gives the empty dictionary.
\<close>

definition dotenv_dict :: "bindings \<Rightarrow> bindings" where
  "dotenv_dict bs = fold (\<lambda>(k, v) d. AList.update k v d) bs []"

definition dotenv_values :: "filesystem \<Rightarrow> string \<Rightarrow> bindings" where
  "dotenv_values fs path =
     (case fs path of
        Some (RegularFile bs) \<Rightarrow> dotenv_dict bs
      | _ \<Rightarrow> [])"

text \<open>
  \<open>load_dotenv(path, override)\<close> of python-dotenv, whose \<open>override\<close> parameter
  defaults to \<open>False\<close>: every binding of the file is assigned to \<open>os.environ\<close>,
  except that a key already in \<open>os.environ\<close> is skipped unless \<open>override\<close> is set,
  and that a binding without a value is skipped.
\<close>

definition set_as_environment_variable ::
    "bool \<Rightarrow> string \<times> string option \<Rightarrow> environ \<Rightarrow> environ" where
  "set_as_environment_variable override b environ =
     (case b of (k, v) \<Rightarrow>
        if map_of environ k \<noteq> None \<and> \<not> override then environ
        else (case v of None \<Rightarrow> environ | Some s \<Rightarrow> AList.update k s environ))"

definition load_dotenv :: "filesystem \<Rightarrow> string \<Rightarrow> bool \<Rightarrow> environ \<Rightarrow> environ" where
  "load_dotenv fs path override environ =
     fold (set_as_environment_variable override) (dotenv_values fs path) environ"

text \<open>
  The variables that a load without \<open>override\<close> adds to an environment: the bindings
  of the file that have a value and whose key the environment does not have.
\<close>

definition new_variables :: "environ \<Rightarrow> bindings \<Rightarrow> environ" where
  "new_variables environ d =
     List.map_filter
       (\<lambda>(k, v). case v of
                    None \<Rightarrow> None
                  | Some s \<Rightarrow> if map_of environ k = None then Some (k, s) else None) d"

section \<open>app/config.py: module level\<close>

definition env_file_map :: "string \<rightharpoonup> string" where
  "env_file_map = map_of
     [(''production'', ''.env.production''),
      (''staging'', ''.env.staging''),
      (''test'', ''.env.test''),
      (''development'', ''.env.local'')]"

definition env :: "environ \<Rightarrow> string" where
  "env environ = (case getenv environ ''ENVIRONMENT'' of None \<Rightarrow> ''development'' | Some v \<Rightarrow> v)"

definition env_file :: "environ \<Rightarrow> string" where
  "env_file environ = (case env_file_map (env environ) of None \<Rightarrow> ''.env'' | Some f \<Rightarrow> f)"

text \<open>
  Lines 24 to 28. The first call passes no \<open>override\<close>, so it runs with the default
  \<open>False\<close>; the second passes \<open>override=False\<close>. The result is \<open>os.environ\<close> as
  the import of the module leaves it.
\<close>

definition load_env_files :: "filesystem \<Rightarrow> environ \<Rightarrow> environ" where
  "load_env_files fs environ =
     (if path_exists fs (env_file environ)
      then load_dotenv fs (env_file environ) False environ
      else load_dotenv fs ''.env'' False environ)"


section \<open>app/config.py: Settings\<close>

text \<open>
  The declared default of \<open>cors_origins\<close> is \<open>os.getenv("CORS_ORIGINS", [...])\<close>,
  evaluated once when the class body runs: the string of the variable, or else a list
  of two strings.
\<close>

datatype py_value = PyStr string | PyList "string list"

record Settings =
  supabase_url :: string
  supabase_anon_key :: string
  supabase_service_role_key :: string
  supabase_jwt_secret :: string
  supabase_db_url :: "string option"
  supabase_db_password :: "string option"
  supabase_access_token :: "string option"
  jwt_secret_key :: string
  jwt_algorithm :: string
  jwt_access_token_expire_minutes :: int
  jwt_refresh_token_expire_days :: int
  environment :: string
  debug :: string
  api_version :: string
  cors_origins :: string
  media_max_file_size_mb :: int
  media_max_memory_size_mb :: int
  media_thumbnail_size :: int
  media_upload_url_expires_seconds :: int
  media_access_url_expires_seconds :: int
  storage_bucket_name :: string
  cloudflare_tunnel_token :: "string option"

definition cors_origins_default :: "environ \<Rightarrow> py_value" where
  "cors_origins_default environ =
     (case getenv environ ''CORS_ORIGINS'' of
        Some v \<Rightarrow> PyStr v
      | None \<Rightarrow> PyList [''http://localhost:5173, http://localhost:3000'', ''timelesslove.ai''])"

subsection \<open>Where pydantic-settings finds the value of a field\<close>

text \<open>
  With \<open>case_sensitive = False\<close> the keys of a source are lower-cased into a new
  dictionary, so that of two keys equal up to case the later one wins. The sources
  are, in priority order, \<open>os.environ\<close> and the file \<open>.env\<close> (\<open>env_file\<close> of
  \<open>model_config\<close>), read only if it is a regular file; a binding of the file without
  a value counts as absent. Keys that name no field are ignored.
\<close>

definition lower_keys :: "(string \<times> 'v) list \<Rightarrow> (string \<rightharpoonup> 'v)" where
  "lower_keys kvs = map_of (rev (map (\<lambda>(k, v). (lower k, v)) kvs))"

definition env_source :: "environ \<Rightarrow> string \<Rightarrow> string option" where
  "env_source environ name = lower_keys environ name"

definition dotenv_source :: "filesystem \<Rightarrow> string \<Rightarrow> string option" where
  "dotenv_source fs name =
     (case lower_keys (dotenv_values fs ''.env'') name of
        Some (Some v) \<Rightarrow> Some v
      | _ \<Rightarrow> None)"

definition settings_source :: "environ \<Rightarrow> filesystem \<Rightarrow> string \<Rightarrow> string option" where
  "settings_source environ fs name =
     (case env_source environ name of
        Some v \<Rightarrow> Some v
      | None \<Rightarrow> dotenv_source fs name)"

subsection \<open>Validation\<close>

text \<open>
  pydantic validates every field and reports all failures together: a
  \<open>ValidationError\<close> carries one entry per failing field, the name of the field and
  the kind of failure, in the order of the fields.
\<close>

datatype error_type = Missing | Int_parsing | String_type

type_synonym error_list = "(string \<times> error_type) list"

datatype ValidationError = ValidationError error_list

type_synonym 'a validated = "error_list + 'a"

definition required_str :: "(string \<Rightarrow> string option) \<Rightarrow> string \<Rightarrow> string validated" where
  "required_str src name =
     (case src name of None \<Rightarrow> Inl [(name, Missing)] | Some v \<Rightarrow> Inr v)"

definition optional_str :: "(string \<Rightarrow> string option) \<Rightarrow> string \<Rightarrow> string option validated" where
  "optional_str src name = Inr (src name)"

definition default_str :: "(string \<Rightarrow> string option) \<Rightarrow> string \<Rightarrow> string \<Rightarrow> string validated" where
  "default_str src name d = Inr (case src name of None \<Rightarrow> d | Some v \<Rightarrow> v)"

text \<open>
  The conversion of a string to an \<open>int\<close> field is pydantic's; it is a parameter
  \<open>to_int\<close> of the model, \<open>None\<close> where pydantic rejects the string.
\<close>

definition default_int ::
    "(string \<Rightarrow> int option) \<Rightarrow> (string \<Rightarrow> string option) \<Rightarrow> string \<Rightarrow> int \<Rightarrow> int validated" where
  "default_int to_int src name d =
     (case src name of
        None \<Rightarrow> Inr d
      | Some v \<Rightarrow> (case to_int v of None \<Rightarrow> Inl [(name, Int_parsing)] | Some i \<Rightarrow> Inr i))"

text \<open>
  \<open>BaseSettings\<close> of pydantic-settings sets \<open>validate_default = True\<close>, and the
  \<open>model_config\<close> of the class does not change it: a default is validated against the
  type of the field, like a value from a source. The defaults written as literals are
  of the type of their field; the default of \<open>cors_origins\<close> is a \<open>str\<close> field's,
  and is a string or a list.
\<close>

definition default_validated_str ::
    "(string \<Rightarrow> string option) \<Rightarrow> string \<Rightarrow> py_value \<Rightarrow> string validated" where
  "default_validated_str src name d =
     (case src name of
        Some v \<Rightarrow> Inr v
      | None \<Rightarrow> (case d of PyStr v \<Rightarrow> Inr v | PyList _ \<Rightarrow> Inl [(name, String_type)]))"

text \<open>One more field: the errors of both sides are kept.\<close>

definition field :: "('a \<Rightarrow> 'b) validated \<Rightarrow> 'a validated \<Rightarrow> 'b validated" where
  "field f x =
     (case f of
        Inr g \<Rightarrow> (case x of Inr v \<Rightarrow> Inr (g v) | Inl e \<Rightarrow> Inl e)
      | Inl e \<Rightarrow> (case x of Inr v \<Rightarrow> Inl e | Inl e' \<Rightarrow> Inl (e @ e')))"


definition validate_fields ::
    "py_value \<Rightarrow> (string \<Rightarrow> int option) \<Rightarrow> (string \<Rightarrow> string option) \<Rightarrow> Settings validated" where
  "validate_fields cors_default to_int src =
     field (field (field (field (field (field (field (field (field (field (field
     (field (field (field (field (field (field (field (field (field (field (field
       (Inr Settings.make)
       (required_str src ''supabase_url''))
       (required_str src ''supabase_anon_key''))
       (required_str src ''supabase_service_role_key''))
       (required_str src ''supabase_jwt_secret''))
       (optional_str src ''supabase_db_url''))
       (optional_str src ''supabase_db_password''))
       (optional_str src ''supabase_access_token''))
       (required_str src ''jwt_secret_key''))
       (default_str src ''jwt_algorithm'' ''HS256''))
       (default_int to_int src ''jwt_access_token_expire_minutes'' 15))
       (default_int to_int src ''jwt_refresh_token_expire_days'' 7))
       (default_str src ''environment'' ''development''))
       (default_str src ''debug'' ''false''))
       (default_str src ''api_version'' ''v1''))
       (default_validated_str src ''cors_origins'' cors_default))
       (default_int to_int src ''media_max_file_size_mb'' 50))
       (default_int to_int src ''media_max_memory_size_mb'' 200))
       (default_int to_int src ''media_thumbnail_size'' 400))
       (default_int to_int src ''media_upload_url_expires_seconds'' 300))
       (default_int to_int src ''media_access_url_expires_seconds'' 3600))
       (default_str src ''storage_bucket_name'' ''memories''))
       (optional_str src ''cloudflare_tunnel_token'')"

text \<open>\<open>Settings()\<close>: the constructor, raising \<open>ValidationError\<close> or returning the instance.\<close>

definition Settings_init ::
    "py_value \<Rightarrow> (string \<Rightarrow> int option) \<Rightarrow> environ \<Rightarrow> filesystem \<Rightarrow> ValidationError + Settings" where
  "Settings_init cors_default to_int environ fs =
     (case validate_fields cors_default to_int (settings_source environ fs) of
        Inl es \<Rightarrow> Inl (ValidationError es)
      | Inr s \<Rightarrow> Inr s)"

definition required_fields :: "string list" where
  "required_fields =
     [''supabase_url'', ''supabase_anon_key'', ''supabase_service_role_key'',
      ''supabase_jwt_secret'', ''jwt_secret_key'']"

definition int_fields :: "string list" where
  "int_fields =
     [''jwt_access_token_expire_minutes'', ''jwt_refresh_token_expire_days'',
      ''media_max_file_size_mb'', ''media_max_memory_size_mb'', ''media_thumbnail_size'',
      ''media_upload_url_expires_seconds'', ''media_access_url_expires_seconds'']"

subsection \<open>Derived properties\<close>

definition is_debug :: "Settings \<Rightarrow> bool" where
  "is_debug self = (lower (debug self) = ''true'')"

definition cors_origins_list :: "Settings \<Rightarrow> string list" where
  "cors_origins_list self = map strip (split CHR '','' (cors_origins self))"

section \<open>app/config.py: the module and get_settings\<close>

text \<open>
  The state of the imported module: the default of \<open>cors_origins\<close> fixed when the
  class was defined, and the global \<open>_settings\<close>, \<open>None\<close> at first.
\<close>

record config_module =
  cors_default :: py_value
  settings_global :: "Settings option"

definition import_config :: "filesystem \<Rightarrow> environ \<Rightarrow> environ \<times> config_module" where
  "import_config fs environ =
     (let environ' = load_env_files fs environ
      in (environ', \<lparr>cors_default = cors_origins_default environ', settings_global = None\<rparr>))"

definition get_settings ::
    "(string \<Rightarrow> int option) \<Rightarrow> environ \<Rightarrow> filesystem \<Rightarrow> config_module
       \<Rightarrow> (ValidationError + Settings) \<times> config_module" where
  "get_settings to_int environ fs m =
     (case settings_global m of
        None \<Rightarrow>
          (case Settings_init (cors_default m) to_int environ fs of
             Inl e \<Rightarrow> (Inl e, m)
           | Inr s \<Rightarrow> (Inr s, m\<lparr>settings_global := Some s\<rparr>))
      | Some s \<Rightarrow> (Inr s, m))"

text \<open>
  A run of calls, each in the environment and file system of its moment; the results
  in order, and the module after the last call.
\<close>

fun get_settings_calls ::
    "(string \<Rightarrow> int option) \<Rightarrow> (environ \<times> filesystem) list \<Rightarrow> config_module
       \<Rightarrow> (ValidationError + Settings) list \<times> config_module" where
  "get_settings_calls to_int [] m = ([], m)"
| "get_settings_calls to_int ((environ, fs) # ws) m =
     (case get_settings to_int environ fs m of
        (r, m') \<Rightarrow> (case get_settings_calls to_int ws m' of (rs, m'') \<Rightarrow> (r # rs, m'')))"

section \<open>app/api/v1/health.py\<close>

text \<open>
  What a call of the database client raises: an instance of \<open>Exception\<close>, which
  \<open>except Exception\<close> catches, or of another subclass of \<open>BaseException\<close>
  (\<open>KeyboardInterrupt\<close>, \<open>asyncio.CancelledError\<close>), which it does not. Either
  carries its \<open>str(e)\<close>.
\<close>

datatype raised = ExceptionInstance string | BaseExceptionInstance string

fun isinstance_Exception :: "raised \<Rightarrow> bool" where
  "isinstance_Exception (ExceptionInstance _) = True"
| "isinstance_Exception (BaseExceptionInstance _) = False"

fun str_of :: "raised \<Rightarrow> string" where
  "str_of (ExceptionInstance s) = s"
| "str_of (BaseExceptionInstance s) = s"

text \<open>
  The body of the \<open>try\<close>: \<open>get_supabase_service_client()\<close>, then the count query
  on the client. Both belong to the database client and are parameters.
\<close>

definition probe :: "(raised + 'c) \<Rightarrow> ('c \<Rightarrow> raised + 'r) \<Rightarrow> raised + 'r" where
  "probe get_supabase_service_client execute =
     (case get_supabase_service_client of
        Inl e \<Rightarrow> Inl e
      | Inr supabase \<Rightarrow> execute supabase)"

datatype health_error = SettingsError ValidationError | Propagated raised

type_synonym document = "string \<rightharpoonup> string"

definition status_response :: "Settings \<Rightarrow> document" where
  "status_response settings =
     [''status'' \<mapsto> ''healthy'',
      ''version'' \<mapsto> api_version settings,
      ''environment'' \<mapsto> environment settings]"

definition health_body :: "Settings \<Rightarrow> (raised + 'r) \<Rightarrow> health_error + document" where
  "health_body settings outcome =
     (case outcome of
        Inr result \<Rightarrow> Inr ((status_response settings)(''database'' \<mapsto> ''connected''))
      | Inl e \<Rightarrow>
          if isinstance_Exception e
          then Inr ((status_response settings)
                 (''database'' \<mapsto> ''disconnected'', ''database_error'' \<mapsto> str_of e))
          else Inl (Propagated e))"

definition health ::
    "(string \<Rightarrow> int option) \<Rightarrow> environ \<Rightarrow> filesystem \<Rightarrow> (raised + 'c) \<Rightarrow> ('c \<Rightarrow> raised + 'r)
       \<Rightarrow> config_module \<Rightarrow> (health_error + document) \<times> config_module" where
  "health to_int environ fs get_supabase_service_client execute m =
     (case get_settings to_int environ fs m of
        (Inl e, m') \<Rightarrow> (Inl (SettingsError e), m')
      | (Inr settings, m') \<Rightarrow>
          (health_body settings (probe get_supabase_service_client execute), m'))"

text \<open>The value under a key of the returned document; \<open>None\<close> if the call raised.\<close>

definition response_field :: "string \<Rightarrow> (health_error + document) \<times> config_module \<Rightarrow> string option" where
  "response_field key r = (case fst r of Inl _ \<Rightarrow> None | Inr d \<Rightarrow> d key)"

section \<open>Example inputs\<close>

text \<open>
  A production process with every required variable and \<open>CORS_ORIGINS\<close>, no dotenv
  file on disk, and a conversion that knows the string \<open>30\<close>. The same process
  without \<open>CORS_ORIGINS\<close> is \<open>environ1\<close>.
\<close>

definition environ0 :: environ where
  "environ0 =
     [(''ENVIRONMENT'', ''production''),
      (''SUPABASE_URL'', ''https://db.example''),
      (''SUPABASE_ANON_KEY'', ''anon''),
      (''SUPABASE_SERVICE_ROLE_KEY'', ''service''),
      (''SUPABASE_JWT_SECRET'', ''jwt''),
      (''JWT_SECRET_KEY'', ''key''),
      (''JWT_ACCESS_TOKEN_EXPIRE_MINUTES'', ''30''),
      (''CORS_ORIGINS'', ''a, b,c'')]"

definition environ1 :: environ where
  "environ1 =
     [(''ENVIRONMENT'', ''production''),
      (''SUPABASE_URL'', ''https://db.example''),
      (''SUPABASE_ANON_KEY'', ''anon''),
      (''SUPABASE_SERVICE_ROLE_KEY'', ''service''),
      (''SUPABASE_JWT_SECRET'', ''jwt''),
      (''JWT_SECRET_KEY'', ''key'')]"

definition to_int0 :: "string \<Rightarrow> int option" where
  "to_int0 = [''30'' \<mapsto> 30]"

definition default_list :: py_value where
  "default_list = PyList [''http://localhost:5173, http://localhost:3000'', ''timelesslove.ai'']"

definition module0 :: config_module where
  "module0 = \<lparr>cors_default = PyStr ''a, b,c'', settings_global = None\<rparr>"

definition module1 :: config_module where
  "module1 = \<lparr>cors_default = default_list, settings_global = None\<rparr>"

definition settings0 :: Settings where
  "settings0 =
     \<lparr>supabase_url = ''https://db.example'',
      supabase_anon_key = ''anon'',
      supabase_service_role_key = ''service'',
      supabase_jwt_secret = ''jwt'',
      supabase_db_url = None,
      supabase_db_password = None,
      supabase_access_token = None,
      jwt_secret_key = ''key'',
      jwt_algorithm = ''HS256'',
      jwt_access_token_expire_minutes = 30,
      jwt_refresh_token_expire_days = 7,
      environment = ''production'',
      debug = ''false'',
      api_version = ''v1'',
      cors_origins = ''a, b,c'',
      media_max_file_size_mb = 50,
      media_max_memory_size_mb = 200,
      media_thumbnail_size = 400,
      media_upload_url_expires_seconds = 300,
      media_access_url_expires_seconds = 3600,
      storage_bucket_name = ''memories'',
      cloudflare_tunnel_token = None\<rparr>"


definition environ3 :: environ where
  "environ3 =
     [(''ENVIRONMENT'', ''production''),
      (''SUPABASE_URL'', ''''),
      (''SUPABASE_ANON_KEY'', ''anon''),
      (''SUPABASE_SERVICE_ROLE_KEY'', ''service''),
      (''SUPABASE_JWT_SECRET'', ''jwt''),
      (''JWT_SECRET_KEY'', ''key''),
      (''JWT_ACCESS_TOKEN_EXPIRE_MINUTES'', ''30''),
      (''CORS_ORIGINS'', ''a, b,c'')]"

definition environ4 :: environ where
  "environ4 = environ0 @ [(''DEBUG'', ''false'')]"

definition fs4 :: filesystem where
  "fs4 =
     [''.env.production'' \<mapsto>
        RegularFile [(''DEBUG'', Some ''true''), (''API_VERSION'', Some ''v2'')],
      ''.env'' \<mapsto>
        RegularFile [(''API_VERSION'', Some ''v0''), (''STORAGE_BUCKET_NAME'', Some ''bucket'')]]"


section \<open>Evaluating the examples\<close>

lemma field_Inr_Inr: "field (Inr g) (Inr v) = Inr (g v)"
  by (simp add: field_def)

lemma lower_keys_Nil: "lower_keys [] = Map.empty"
  by (simp add: lower_keys_def)

lemmas lower_eval = lower_def lower_char_def char_of_def bit_Suc_0_iff

lemmas validate_eval =
  Settings_init_def validate_fields_def field_Inr_Inr required_str_def optional_str_def
  default_str_def default_int_def default_validated_str_def settings_source_def env_source_def
  dotenv_source_def dotenv_values_def lower_keys_Nil Settings.make_def

lemma lower_keys_environ0:
  "lower_keys environ0 =
     [''environment'' \<mapsto> ''production'',
      ''supabase_url'' \<mapsto> ''https://db.example'',
      ''supabase_anon_key'' \<mapsto> ''anon'',
      ''supabase_service_role_key'' \<mapsto> ''service'',
      ''supabase_jwt_secret'' \<mapsto> ''jwt'',
      ''jwt_secret_key'' \<mapsto> ''key'',
      ''jwt_access_token_expire_minutes'' \<mapsto> ''30'',
      ''cors_origins'' \<mapsto> ''a, b,c'']"
  by (simp add: lower_keys_def environ0_def lower_eval fun_eq_iff)

lemma import_config_environ0: "import_config Map.empty environ0 = (environ0, module0)"
  by (simp add: import_config_def load_env_files_def path_exists_def load_dotenv_def
      dotenv_values_def cors_origins_default_def getenv_def environ0_def module0_def)

lemma Settings_init_environ0:
  "Settings_init (PyStr ''a, b,c'') to_int0 environ0 Map.empty = Inr settings0"
  by (simp add: validate_eval lower_keys_environ0 to_int0_def settings0_def)

lemma get_settings_module0:
  "get_settings to_int0 environ0 Map.empty module0 =
     (Inr settings0, module0\<lparr>settings_global := Some settings0\<rparr>)"
  by (simp add: get_settings_def module0_def Settings_init_environ0)

section \<open>The health operation\<close>

lemma health_Inr:
  assumes "get_settings to_int environ fs m = (Inr settings, m')"
  shows "health to_int environ fs gc ex m = (health_body settings (probe gc ex), m')"
  using assms by (simp add: health_def)

lemma health_body_caught:
  assumes "isinstance_Exception e"
  shows "health_body settings (Inl e) =
     Inr ((status_response settings)
       (''database'' \<mapsto> ''disconnected'', ''database_error'' \<mapsto> str_of e))"
  using assms by (simp add: health_body_def)

lemma health_body_connected:
  "health_body settings (Inr r) =
     Inr ((status_response settings)(''database'' \<mapsto> ''connected''))"
  by (simp add: health_body_def)

lemma health_result_cases:
  assumes "health to_int environ fs gc ex m = (Inr d, m')"
  obtains settings where "get_settings to_int environ fs m = (Inr settings, m')"
    and "health_body settings (probe gc ex) = Inr d"
  using assms by (auto simp: health_def split: prod.splits sum.splits)

lemma health_body_cases:
  assumes "health_body settings outcome = Inr d"
  shows "d = (status_response settings)(''database'' \<mapsto> ''connected'') \<or>
         (\<exists>e. d = (status_response settings)
            (''database'' \<mapsto> ''disconnected'', ''database_error'' \<mapsto> str_of e))"
  using assms by (auto simp: health_body_def split: sum.splits if_splits)

lemma dom_status_response:
  "dom (status_response settings) = {''status'', ''version'', ''environment''}"
  by (auto simp: status_response_def)

lemma dom_connected:
  "dom ((status_response settings)(''database'' \<mapsto> v)) =
     {''status'', ''version'', ''environment'', ''database''}"
  by (simp only: dom_fun_upd option.simps if_False dom_status_response insert_commute)

lemma dom_disconnected:
  "dom ((status_response settings)(''database'' \<mapsto> v, ''database_error'' \<mapsto> w)) =
     {''status'', ''version'', ''environment'', ''database'', ''database_error''}"
  by (simp only: dom_fun_upd option.simps if_False dom_status_response insert_commute)

text \<open>
  C1, as stated, fails: the probe raises an \<open>Exception\<close> whose \<open>str\<close> is empty (a bare
  \<open>TimeoutError()\<close>), and the document's \<open>database_error\<close> is the empty string.
\<close>

theorem health_database_error_empty:
  "response_field ''database_error''
     (health to_int0 environ0 Map.empty (Inl (ExceptionInstance [])) (\<lambda>c :: unit. Inr ()) module0)
   = Some []"
  by (simp add: response_field_def health_Inr [OF get_settings_module0] probe_def
      health_body_caught)

text \<open>
  C1, amended: whenever the health operation reaches the database probe and the probe
  raises an instance of \<open>Exception\<close>, the operation raises nothing and returns a document
  with \<open>status\<close> \<open>healthy\<close>, \<open>database\<close> \<open>disconnected\<close> and \<open>database_error\<close> equal to
  \<open>str(e)\<close> of the exception, whatever that string is.
\<close>

theorem health_probe_failure_reported:
  assumes "get_settings to_int environ fs m = (Inr settings, m')"
    and "probe get_client execute = Inl e"
    and "isinstance_Exception e"
  shows "\<exists>d. health to_int environ fs get_client execute m = (Inr d, m') \<and>
           d ''status'' = Some ''healthy'' \<and>
           d ''database'' = Some ''disconnected'' \<and>
           d ''database_error'' = Some (str_of e)"
  using assms by (simp add: health_Inr health_body_caught status_response_def)

theorem health_probe_failure_reported_witness:
  "get_settings to_int0 environ0 Map.empty module0 =
     (Inr settings0, module0\<lparr>settings_global := Some settings0\<rparr>) \<and>
   probe (Inr ()) (\<lambda>c :: unit. Inl (ExceptionInstance ''timed out'') :: raised + unit) =
     Inl (ExceptionInstance ''timed out'') \<and>
   isinstance_Exception (ExceptionInstance ''timed out'') \<and>
   (\<exists>d. health to_int0 environ0 Map.empty (Inr ())
          (\<lambda>c :: unit. Inl (ExceptionInstance ''timed out'') :: raised + unit) module0 =
          (Inr d, module0\<lparr>settings_global := Some settings0\<rparr>) \<and>
        d ''status'' = Some ''healthy'' \<and>
        d ''database'' = Some ''disconnected'' \<and>
        d ''database_error'' = Some ''timed out'')"
proof -
  have p: "probe (Inr ()) (\<lambda>c :: unit. Inl (ExceptionInstance ''timed out'') :: raised + unit) =
      Inl (ExceptionInstance ''timed out'')"
    by (simp add: probe_def)
  have i: "isinstance_Exception (ExceptionInstance ''timed out'')"
    by simp
  from health_probe_failure_reported [OF get_settings_module0 p i] get_settings_module0 p i
  show ?thesis by simp
qed

text \<open>
  C2: when the probe succeeds the document has \<open>status\<close> \<open>healthy\<close>, \<open>version\<close> the
  settings' \<open>api_version\<close>, \<open>environment\<close> the settings' \<open>environment\<close>, \<open>database\<close>
  \<open>connected\<close> and no \<open>database_error\<close> key; and every document the operation returns,
  whatever the probe did, carries that \<open>version\<close> and that \<open>environment\<close>.
\<close>

theorem health_probe_success:
  assumes "get_settings to_int environ fs m = (Inr settings, m')"
  shows "(probe get_client execute = Inr r \<longrightarrow>
           (\<exists>d. health to_int environ fs get_client execute m = (Inr d, m') \<and>
             d ''status'' = Some ''healthy'' \<and>
             d ''version'' = Some (api_version settings) \<and>
             d ''environment'' = Some (environment settings) \<and>
             d ''database'' = Some ''connected'' \<and>
             ''database_error'' \<notin> dom d)) \<and>
         (\<forall>d. health to_int environ fs get_client execute m = (Inr d, m') \<longrightarrow>
             d ''version'' = Some (api_version settings) \<and>
             d ''environment'' = Some (environment settings))"
proof (intro conjI impI allI)
  assume "probe get_client execute = Inr r"
  with assms show "\<exists>d. health to_int environ fs get_client execute m = (Inr d, m') \<and>
             d ''status'' = Some ''healthy'' \<and>
             d ''version'' = Some (api_version settings) \<and>
             d ''environment'' = Some (environment settings) \<and>
             d ''database'' = Some ''connected'' \<and>
             ''database_error'' \<notin> dom d"
    by (simp add: health_Inr health_body_connected status_response_def dom_def)
next
  fix d
  assume "health to_int environ fs get_client execute m = (Inr d, m')"
  with assms have b: "health_body settings (probe get_client execute) = Inr d"
    by (simp add: health_Inr)
  from health_body_cases [OF b]
  show "d ''version'' = Some (api_version settings)"
    by (auto simp: status_response_def)
  from health_body_cases [OF b]
  show "d ''environment'' = Some (environment settings)"
    by (auto simp: status_response_def)
qed

theorem health_probe_success_witness:
  "get_settings to_int0 environ0 Map.empty module0 =
     (Inr settings0, module0\<lparr>settings_global := Some settings0\<rparr>) \<and>
   probe (Inr ()) (\<lambda>c :: unit. Inr (0 :: nat) :: raised + nat) = Inr 0 \<and>
   (\<exists>d. health to_int0 environ0 Map.empty (Inr ())
          (\<lambda>c :: unit. Inr (0 :: nat) :: raised + nat) module0 =
          (Inr d, module0\<lparr>settings_global := Some settings0\<rparr>) \<and>
        d ''status'' = Some ''healthy'' \<and>
        d ''version'' = Some ''v1'' \<and>
        d ''environment'' = Some ''production'' \<and>
        d ''database'' = Some ''connected'' \<and>
        ''database_error'' \<notin> dom d)"
proof -
  have p: "probe (Inr ()) (\<lambda>c :: unit. Inr (0 :: nat) :: raised + nat) = Inr 0"
    by (simp add: probe_def)
  from health_probe_success [OF get_settings_module0,
      of "Inr ()" "\<lambda>c :: unit. Inr (0 :: nat) :: raised + nat" 0] p
  have "\<exists>d. health to_int0 environ0 Map.empty (Inr ())
          (\<lambda>c :: unit. Inr (0 :: nat) :: raised + nat) module0 =
          (Inr d, module0\<lparr>settings_global := Some settings0\<rparr>) \<and>
        d ''status'' = Some ''healthy'' \<and>
        d ''version'' = Some (api_version settings0) \<and>
        d ''environment'' = Some (environment settings0) \<and>
        d ''database'' = Some ''connected'' \<and>
        ''database_error'' \<notin> dom d"
    by blast
  then show ?thesis using get_settings_module0 p
    by (simp add: settings0_def)
qed

text \<open>
  C10: every document the health operation returns has the key \<open>database\<close>, equal to
  \<open>connected\<close> or \<open>disconnected\<close>; its keys are exactly \<open>status\<close>, \<open>version\<close>,
  \<open>environment\<close>, \<open>database\<close> in the first case, and those with \<open>database_error\<close> in
  the second.
\<close>

theorem health_document_keys:
  assumes "health to_int environ fs get_client execute m = (Inr d, m')"
  shows "(d ''database'' = Some ''connected'' \<and>
            dom d = {''status'', ''version'', ''environment'', ''database''}) \<or>
         (d ''database'' = Some ''disconnected'' \<and>
            dom d = {''status'', ''version'', ''environment'', ''database'', ''database_error''})"
proof -
  from assms obtain settings where b: "health_body settings (probe get_client execute) = Inr d"
    by (rule health_result_cases)
  from health_body_cases [OF b] show ?thesis
  proof (elim disjE exE)
    assume "d = (status_response settings)(''database'' \<mapsto> ''connected'')"
    then show ?thesis by (simp only: dom_connected) simp
  next
    fix e
    assume "d = (status_response settings)
      (''database'' \<mapsto> ''disconnected'', ''database_error'' \<mapsto> str_of e)"
    then show ?thesis by (simp only: dom_disconnected) simp
  qed
qed

theorem health_document_keys_witness:
  "health to_int0 environ0 Map.empty (Inl (ExceptionInstance ''refused'')) (\<lambda>c :: unit. Inr ()) module0 =
     (Inr ((status_response settings0)
        (''database'' \<mapsto> ''disconnected'', ''database_error'' \<mapsto> ''refused'')),
      module0\<lparr>settings_global := Some settings0\<rparr>) \<and>
   ((status_response settings0)
        (''database'' \<mapsto> ''disconnected'', ''database_error'' \<mapsto> ''refused'')) ''database'' =
      Some ''disconnected'' \<and>
   dom ((status_response settings0)
        (''database'' \<mapsto> ''disconnected'', ''database_error'' \<mapsto> ''refused'')) =
     {''status'', ''version'', ''environment'', ''database'', ''database_error''}"
proof -
  have h: "health to_int0 environ0 Map.empty (Inl (ExceptionInstance ''refused''))
      (\<lambda>c :: unit. Inr ()) module0 =
     (Inr ((status_response settings0)
        (''database'' \<mapsto> ''disconnected'', ''database_error'' \<mapsto> ''refused'')),
      module0\<lparr>settings_global := Some settings0\<rparr>)"
    by (simp add: health_Inr [OF get_settings_module0] probe_def health_body_caught)
  from health_document_keys [OF h] h show ?thesis
    by simp
qed

section \<open>Missing required fields\<close>

lemma field_Inr_iff: "field f x = Inr r \<longleftrightarrow> (\<exists>g v. f = Inr g \<and> x = Inr v \<and> r = g v)"
  by (auto simp: field_def split: sum.splits)










section \<open>Required fields and the empty string\<close>

lemma required_str_Inr_iff: "required_str src name = Inr v \<longleftrightarrow> src name = Some v"
  by (simp add: required_str_def split: option.splits)

lemma validate_fields_Inr_required:
  assumes "validate_fields cd to_int src = Inr s"
  shows "src ''supabase_url'' = Some (supabase_url s)"
    and "src ''supabase_anon_key'' = Some (supabase_anon_key s)"
    and "src ''supabase_service_role_key'' = Some (supabase_service_role_key s)"
    and "src ''supabase_jwt_secret'' = Some (supabase_jwt_secret s)"
    and "src ''jwt_secret_key'' = Some (jwt_secret_key s)"
  using assms unfolding validate_fields_def
  by (auto simp only: field_Inr_iff required_str_Inr_iff sum.inject Settings.make_def Settings.simps)

lemma Settings_init_Inr_iff:
  "Settings_init cd to_int environ fs = Inr s \<longleftrightarrow>
     validate_fields cd to_int (settings_source environ fs) = Inr s"
  by (simp add: Settings_init_def split: sum.splits)

lemma lower_keys_environ3:
  "lower_keys environ3 =
     [''environment'' \<mapsto> ''production'',
      ''supabase_url'' \<mapsto> '''',
      ''supabase_anon_key'' \<mapsto> ''anon'',
      ''supabase_service_role_key'' \<mapsto> ''service'',
      ''supabase_jwt_secret'' \<mapsto> ''jwt'',
      ''jwt_secret_key'' \<mapsto> ''key'',
      ''jwt_access_token_expire_minutes'' \<mapsto> ''30'',
      ''cors_origins'' \<mapsto> ''a, b,c'']"
  by (simp add: lower_keys_def environ3_def lower_eval fun_eq_iff)

text \<open>
  C6, as stated, fails: with \<open>SUPABASE_URL\<close> set to the empty string the construction
  succeeds and \<open>supabase_url\<close> is the empty string.
\<close>

theorem Settings_init_accepts_empty_required:
  "Settings_init (PyStr ''a, b,c'') to_int0 environ3 Map.empty = Inr (settings0\<lparr>supabase_url := []\<rparr>)"
  by (simp add: validate_eval lower_keys_environ3 to_int0_def settings0_def)

text \<open>
  C6, amended: whenever the construction of Settings succeeds, every required field
  holds the string that the sources supply for it, which may be the empty string; so the
  construction fails when a required field is supplied by no source, and does not fail
  because the supplied string is empty.
\<close>

theorem Settings_init_required_supplied:
  assumes "Settings_init cd to_int environ fs = Inr s"
  shows "settings_source environ fs ''supabase_url'' = Some (supabase_url s) \<and>
         settings_source environ fs ''supabase_anon_key'' = Some (supabase_anon_key s) \<and>
         settings_source environ fs ''supabase_service_role_key'' = Some (supabase_service_role_key s) \<and>
         settings_source environ fs ''supabase_jwt_secret'' = Some (supabase_jwt_secret s) \<and>
         settings_source environ fs ''jwt_secret_key'' = Some (jwt_secret_key s)"
  using validate_fields_Inr_required [of cd to_int "settings_source environ fs" s] assms
  by (simp only: Settings_init_Inr_iff simp_thms)

theorem Settings_init_required_supplied_witness:
  "Settings_init (PyStr ''a, b,c'') to_int0 environ3 Map.empty = Inr (settings0\<lparr>supabase_url := []\<rparr>) \<and>
   settings_source environ3 Map.empty ''supabase_url'' = Some [] \<and>
   settings_source environ3 Map.empty ''jwt_secret_key'' = Some ''key''"
proof -
  have c: "Settings_init (PyStr ''a, b,c'') to_int0 environ3 Map.empty =
      Inr (settings0\<lparr>supabase_url := []\<rparr>)"
    by (simp add: validate_eval lower_keys_environ3 to_int0_def settings0_def)
  from Settings_init_required_supplied [OF c] c show ?thesis
    by (simp add: settings0_def)
qed

section \<open>Derived properties\<close>

lemma of_char_lower_char:
  "(of_char (lower_char c) :: nat) =
     (let n = of_char c in
      if (65 \<le> n \<and> n \<le> 90) \<or> (192 \<le> n \<and> n \<le> 222 \<and> n \<noteq> 215) then n + 32 else n)"
  by (auto simp: lower_char_def Let_def)

lemma lower_char_ascii:
  assumes "97 \<le> (of_char d :: nat)" and "(of_char d :: nat) \<le> 122"
  shows "lower_char c = d \<longleftrightarrow>
           (of_char c :: nat) = of_char d \<or> (of_char c :: nat) + 32 = of_char d"
proof -
  have "lower_char c = d \<longleftrightarrow> (of_char (lower_char c) :: nat) = of_char d"
    by (simp only: of_char_eq_iff)
  also have "\<dots> \<longleftrightarrow> (of_char c :: nat) = of_char d \<or> (of_char c :: nat) + 32 = of_char d"
    using assms unfolding of_char_lower_char Let_def by auto
  finally show ?thesis .
qed

lemma char_eq_code: "c = d \<longleftrightarrow> (of_char c :: nat) = of_char d"
  by (simp only: of_char_eq_iff)

lemma lower_char_t: "lower_char c = CHR ''t'' \<longleftrightarrow> c = CHR ''t'' \<or> c = CHR ''T''"
  by (simp add: lower_char_ascii char_eq_code [of c])

lemma lower_char_r: "lower_char c = CHR ''r'' \<longleftrightarrow> c = CHR ''r'' \<or> c = CHR ''R''"
  by (simp add: lower_char_ascii char_eq_code [of c])

lemma lower_char_u: "lower_char c = CHR ''u'' \<longleftrightarrow> c = CHR ''u'' \<or> c = CHR ''U''"
  by (simp add: lower_char_ascii char_eq_code [of c])

lemma lower_char_e: "lower_char c = CHR ''e'' \<longleftrightarrow> c = CHR ''e'' \<or> c = CHR ''E''"
  by (simp add: lower_char_ascii char_eq_code [of c])

lemma lower_true_iff:
  "lower s = ''true'' \<longleftrightarrow>
     (\<exists>a b c d. s = [a, b, c, d] \<and>
        (a = CHR ''t'' \<or> a = CHR ''T'') \<and> (b = CHR ''r'' \<or> b = CHR ''R'') \<and>
        (c = CHR ''u'' \<or> c = CHR ''U'') \<and> (d = CHR ''e'' \<or> d = CHR ''E''))"
proof
  assume "lower s = ''true''"
  then obtain a b c d where s: "s = [a, b, c, d]"
    and "lower_char a = CHR ''t''" "lower_char b = CHR ''r''"
      "lower_char c = CHR ''u''" "lower_char d = CHR ''e''"
    unfolding lower_def by (auto simp only: map_eq_Cons_conv Nil_is_map_conv)
  then show "\<exists>a b c d. s = [a, b, c, d] \<and>
        (a = CHR ''t'' \<or> a = CHR ''T'') \<and> (b = CHR ''r'' \<or> b = CHR ''R'') \<and>
        (c = CHR ''u'' \<or> c = CHR ''U'') \<and> (d = CHR ''e'' \<or> d = CHR ''E'')"
    by (simp only: lower_char_t lower_char_r lower_char_u lower_char_e) blast
next
  assume "\<exists>a b c d. s = [a, b, c, d] \<and>
        (a = CHR ''t'' \<or> a = CHR ''T'') \<and> (b = CHR ''r'' \<or> b = CHR ''R'') \<and>
        (c = CHR ''u'' \<or> c = CHR ''U'') \<and> (d = CHR ''e'' \<or> d = CHR ''E'')"
  then obtain a b c d where s: "s = [a, b, c, d]"
    and "lower_char a = CHR ''t''" "lower_char b = CHR ''r''"
      "lower_char c = CHR ''u''" "lower_char d = CHR ''e''"
    by (simp only: lower_char_t [symmetric] lower_char_r [symmetric] lower_char_u [symmetric]
        lower_char_e [symmetric]) blast
  then show "lower s = ''true''"
    by (simp only: lower_def list.map)
qed

text \<open>
  C7: \<open>is_debug\<close> is true if and only if the stored \<open>debug\<close> string, lower-cased, is
  \<open>true\<close>, that is, if and only if it is \<open>true\<close> in some mix of upper and lower case;
  \<open>True\<close> and \<open>TRUE\<close> give true, and the empty string, \<open>false\<close> and \<open>1\<close> give false.
\<close>

theorem is_debug_iff:
  "(is_debug s \<longleftrightarrow> lower (debug s) = ''true'') \<and>
   (is_debug s \<longleftrightarrow>
      (\<exists>a b c d. debug s = [a, b, c, d] \<and>
        (a = CHR ''t'' \<or> a = CHR ''T'') \<and> (b = CHR ''r'' \<or> b = CHR ''R'') \<and>
        (c = CHR ''u'' \<or> c = CHR ''U'') \<and> (d = CHR ''e'' \<or> d = CHR ''E''))) \<and>
   is_debug (s\<lparr>debug := ''True''\<rparr>) \<and>
   is_debug (s\<lparr>debug := ''TRUE''\<rparr>) \<and>
   \<not> is_debug (s\<lparr>debug := ''''\<rparr>) \<and>
   \<not> is_debug (s\<lparr>debug := ''false''\<rparr>) \<and>
   \<not> is_debug (s\<lparr>debug := ''1''\<rparr>)"
proof (intro conjI)
  show "is_debug s \<longleftrightarrow> lower (debug s) = ''true''"
    by (simp add: is_debug_def)
  show "is_debug s \<longleftrightarrow>
      (\<exists>a b c d. debug s = [a, b, c, d] \<and>
        (a = CHR ''t'' \<or> a = CHR ''T'') \<and> (b = CHR ''r'' \<or> b = CHR ''R'') \<and>
        (c = CHR ''u'' \<or> c = CHR ''U'') \<and> (d = CHR ''e'' \<or> d = CHR ''E''))"
    by (simp only: is_debug_def lower_true_iff)
  show "is_debug (s\<lparr>debug := ''True''\<rparr>)"
    by (simp add: is_debug_def lower_eval)
  show "is_debug (s\<lparr>debug := ''TRUE''\<rparr>)"
    by (simp add: is_debug_def lower_eval)
  show "\<not> is_debug (s\<lparr>debug := ''''\<rparr>)"
    by (simp add: is_debug_def lower_eval)
  show "\<not> is_debug (s\<lparr>debug := ''false''\<rparr>)"
    by (simp add: is_debug_def lower_eval)
  show "\<not> is_debug (s\<lparr>debug := ''1''\<rparr>)"
    by (simp add: is_debug_def lower_eval)
qed

lemma cors_origins_list_example:
  "cors_origins_list (s\<lparr>cors_origins := ''a, b,c''\<rparr>) = [''a'', ''b'', ''c'']"
  by (simp add: cors_origins_list_def strip_def isspace_def)

section \<open>The default of cors_origins\<close>

lemma lower_keys_environ1:
  "lower_keys environ1 =
     [''environment'' \<mapsto> ''production'',
      ''supabase_url'' \<mapsto> ''https://db.example'',
      ''supabase_anon_key'' \<mapsto> ''anon'',
      ''supabase_service_role_key'' \<mapsto> ''service'',
      ''supabase_jwt_secret'' \<mapsto> ''jwt'',
      ''jwt_secret_key'' \<mapsto> ''key'']"
  by (simp add: lower_keys_def environ1_def lower_eval fun_eq_iff)

lemma import_config_environ1: "import_config Map.empty environ1 = (environ1, module1)"
  by (simp add: import_config_def load_env_files_def path_exists_def load_dotenv_def
      dotenv_values_def cors_origins_default_def getenv_def environ1_def module1_def
      default_list_def)

lemma field_Inr_Inl: "field (Inr g) (Inl e) = Inl e"
  by (simp add: field_def)

lemma field_Inl_Inr: "field (Inl e) (Inr v) = Inl e"
  by (simp add: field_def)

lemma Settings_init_environ1:
  "Settings_init default_list to_int0 environ1 Map.empty =
     Inl (ValidationError [(''cors_origins'', String_type)])"
  by (simp add: validate_eval field_Inr_Inl field_Inl_Inr lower_keys_environ1 to_int0_def
      default_list_def)

lemma get_settings_module1:
  "get_settings to_int0 environ1 Map.empty module1 =
     (Inl (ValidationError [(''cors_origins'', String_type)]), module1)"
  by (simp add: get_settings_def module1_def Settings_init_environ1)

lemma get_settings_cached:
  "settings_global m = Some s \<Longrightarrow> get_settings to_int environ fs m = (Inr s, m)"
  by (simp add: get_settings_def)

lemma get_settings_calls_cached:
  "settings_global m = Some s \<Longrightarrow>
     get_settings_calls to_int ws m = (replicate (length ws) (Inr s), m)"
  by (induction ws) (auto simp: get_settings_cached)

lemma get_settings_first:
  assumes "settings_global m = None" and "Settings_init (cors_default m) to_int environ fs = Inr s"
  shows "get_settings to_int environ fs m = (Inr s, m\<lparr>settings_global := Some s\<rparr>)"
  using assms by (simp add: get_settings_def)

text \<open>
  C8 at the input where it fails: the process has every required variable and no
  \<open>CORS_ORIGINS\<close>. The import leaves the list as the declared default of
  \<open>cors_origins\<close>, no source supplies the field, and the construction of Settings
  raises a validation error for \<open>cors_origins\<close>: no string is stored.
\<close>

theorem cors_origins_default_rejected:
  "import_config Map.empty environ1 = (environ1, module1) \<and>
   cors_default module1 =
     PyList [''http://localhost:5173, http://localhost:3000'', ''timelesslove.ai''] \<and>
   settings_source environ1 Map.empty ''cors_origins'' = None \<and>
   Settings_init (cors_default module1) to_int0 environ1 Map.empty =
     Inl (ValidationError [(''cors_origins'', String_type)])"
proof (intro conjI)
  show "import_config Map.empty environ1 = (environ1, module1)"
    by (rule import_config_environ1)
  show "cors_default module1 =
     PyList [''http://localhost:5173, http://localhost:3000'', ''timelesslove.ai'']"
    by (simp add: module1_def default_list_def)
  show "settings_source environ1 Map.empty ''cors_origins'' = None"
    by (simp add: settings_source_def env_source_def dotenv_source_def dotenv_values_def
        lower_keys_Nil lower_keys_environ1)
  show "Settings_init (cors_default module1) to_int0 environ1 Map.empty =
     Inl (ValidationError [(''cors_origins'', String_type)])"
    by (simp add: module1_def Settings_init_environ1)
qed

text \<open>
  C9 at the same input: all required fields are present, and two calls of
  \<open>get_settings\<close> both raise the validation error; nothing is cached, and the second
  call runs the construction again.
\<close>

theorem get_settings_calls_fail_without_cors:
  "get_settings_calls to_int0 [(environ1, Map.empty), (environ1, Map.empty)] module1 =
     ([Inl (ValidationError [(''cors_origins'', String_type)]),
       Inl (ValidationError [(''cors_origins'', String_type)])], module1)"
  by (simp add: get_settings_module1)

section \<open>Loading dotenv files\<close>

lemma distinct_dotenv_dict_aux:
  "distinct (map fst d) \<Longrightarrow> distinct (map fst (fold (\<lambda>(k, v) d. AList.update k v d) bs d))"
  by (induction bs arbitrary: d) (auto simp: AList.distinct_update)

lemma distinct_dotenv_dict: "distinct (map fst (dotenv_dict bs))"
  by (simp add: dotenv_dict_def distinct_dotenv_dict_aux)

lemma distinct_dotenv_values: "distinct (map fst (dotenv_values fs path))"
  by (simp add: dotenv_values_def distinct_dotenv_dict split: option.splits fs_entry.splits)

lemma update_absent: "map_of al k = None \<Longrightarrow> AList.update k v al = al @ [(k, v)]"
  by (induction al) auto

lemma new_variables_Nil: "new_variables e [] = []"
  by (simp add: new_variables_def List.map_filter_simps)


lemma new_variables_Cons:
  "new_variables e ((k, v) # d) =
     (case v of None \<Rightarrow> [] | Some s \<Rightarrow> if map_of e k = None then [(k, s)] else []) @ new_variables e d"
  by (auto simp: new_variables_def List.map_filter_simps split: option.splits)

lemma new_variables_cong:
  "(\<And>k. k \<in> fst ` set d \<Longrightarrow> (map_of e k = None) = (map_of e' k = None)) \<Longrightarrow>
     new_variables e d = new_variables e' d"
proof (induction d)
  case Nil
  show ?case by (simp add: new_variables_Nil)
next
  case (Cons b d)
  obtain k v where b: "b = (k, v)" by (cases b)
  have "new_variables e d = new_variables e' d"
    using Cons by simp
  moreover have "(map_of e k = None) = (map_of e' k = None)"
    using Cons.prems [of k] by (simp add: b)
  ultimately show ?case
    by (simp add: b new_variables_Cons split: option.splits)
qed

lemma load_appends:
  "distinct (map fst d) \<Longrightarrow>
     fold (set_as_environment_variable False) d e = e @ new_variables e d"
proof (induction d arbitrary: e)
  case Nil
  show ?case by (simp add: new_variables_Nil)
next
  case (Cons b d)
  obtain k v where b: "b = (k, v)" by (cases b)
  define e' where "e' = set_as_environment_variable False (k, v) e"
  have e': "e' = e @ (case v of None \<Rightarrow> [] | Some s \<Rightarrow> if map_of e k = None then [(k, s)] else [])"
    by (auto simp: e'_def set_as_environment_variable_def update_absent split: option.splits)
  have k: "k \<notin> fst ` set d" and dd: "distinct (map fst d)"
    using Cons.prems by (auto simp: b)
  have nv: "new_variables e' d = new_variables e d"
  proof (rule new_variables_cong)
    fix k' assume "k' \<in> fst ` set d"
    with k have "k' \<noteq> k" by auto
    then show "(map_of e' k' = None) = (map_of e k' = None)"
      by (auto simp: e' split: option.splits)
  qed
  have "fold (set_as_environment_variable False) (b # d) e =
      fold (set_as_environment_variable False) d e'"
    by (simp add: b e'_def)
  also have "\<dots> = e' @ new_variables e' d"
    using dd by (rule Cons.IH)
  also have "\<dots> = e' @ new_variables e d"
    by (simp only: nv)
  also have "\<dots> = e @ new_variables e (b # d)"
    by (simp add: e' b new_variables_Cons)
  finally show ?case .
qed

lemma load_dotenv_appends:
  "load_dotenv fs path False e = e @ new_variables e (dotenv_values fs path)"
  by (simp add: load_dotenv_def load_appends distinct_dotenv_values)

lemma map_of_new_variables:
  "distinct (map fst d) \<Longrightarrow> map_of e k = None \<Longrightarrow>
     map_of (new_variables e d) k = (case map_of d k of Some (Some v) \<Rightarrow> Some v | _ \<Rightarrow> None)"
proof (induction d)
  case Nil
  show ?case by (simp add: new_variables_Nil)
next
  case (Cons b d)
  obtain k' v where b: "b = (k', v)" by (cases b)
  show ?case
  proof (cases "k' = k")
    case True
    with Cons.prems have "k \<notin> fst ` set d" by (auto simp: b)
    then have n: "map_of d k = None" by (simp add: map_of_eq_None_iff)
    with Cons have "map_of (new_variables e d) k = None" by (simp add: b)
    with True Cons.prems show ?thesis
      by (simp add: b new_variables_Cons split: option.splits)
  next
    case False
    with Cons show ?thesis
      by (simp add: b new_variables_Cons split: option.splits)
  qed
qed

lemma getenv_load_dotenv:
  "getenv (load_dotenv fs path False e) k =
     (case getenv e k of
        Some v \<Rightarrow> Some v
      | None \<Rightarrow> (case map_of (dotenv_values fs path) k of Some (Some v) \<Rightarrow> Some v | _ \<Rightarrow> None))"
  by (simp add: getenv_def load_dotenv_appends map_of_append map_add_def
      map_of_new_variables distinct_dotenv_values split: option.splits)

section \<open>Precedence of the sources\<close>





lemma env_file_production: "env environ = ''production'' \<Longrightarrow> env_file environ = ''.env.production''"
  by (simp add: env_file_def env_file_map_def)

lemma load_env_files_existing:
  assumes "fs (env_file environ) = Some (RegularFile bs)"
  shows "load_env_files fs environ = environ @ new_variables environ (dotenv_dict bs)"
  using assms
  by (simp add: load_env_files_def path_exists_def load_dotenv_appends dotenv_values_def)


lemma dotenv_values_fs4:
  "dotenv_values fs4 ''.env.production'' = [(''DEBUG'', Some ''true''), (''API_VERSION'', Some ''v2'')]"
  "dotenv_values fs4 ''.env'' =
     [(''API_VERSION'', Some ''v0''), (''STORAGE_BUCKET_NAME'', Some ''bucket'')]"
  by (simp_all add: dotenv_values_def fs4_def dotenv_dict_def)

lemma env_environ4: "env environ4 = ''production''"
  by (simp add: env_def getenv_def environ4_def environ0_def)

lemma fs4_files:
  "fs4 (env_file environ4) =
     Some (RegularFile [(''DEBUG'', Some ''true''), (''API_VERSION'', Some ''v2'')])"
  "fs4 ''.env.production'' =
     Some (RegularFile [(''DEBUG'', Some ''true''), (''API_VERSION'', Some ''v2'')])"
  "fs4 ''.env'' =
     Some (RegularFile [(''API_VERSION'', Some ''v0''), (''STORAGE_BUCKET_NAME'', Some ''bucket'')])"
  by (simp_all add: env_file_production [OF env_environ4] fs4_def)

lemma dotenv_dict_tiered:
  "dotenv_dict [(''DEBUG'', Some ''true''), (''API_VERSION'', Some ''v2'')] =
     [(''DEBUG'', Some ''true''), (''API_VERSION'', Some ''v2'')]"
  by (simp add: dotenv_dict_def)

lemma load_env_files_fs4:
  "load_env_files fs4 environ4 = environ4 @ [(''API_VERSION'', ''v2'')]"
proof -
  have "load_env_files fs4 environ4 =
      environ4 @ new_variables environ4 [(''DEBUG'', Some ''true''), (''API_VERSION'', Some ''v2'')]"
    using load_env_files_existing [of fs4 environ4, OF fs4_files(1)]
    by (simp only: dotenv_dict_tiered)
  also have "new_variables environ4 [(''DEBUG'', Some ''true''), (''API_VERSION'', Some ''v2'')] =
      [(''API_VERSION'', ''v2'')]"
    by (simp add: new_variables_Cons new_variables_Nil environ4_def environ0_def)
  finally show ?thesis .
qed

text \<open>
  C3, as stated, fails: the selector is \<open>production\<close>, the file \<open>.env.production\<close>
  exists and binds \<open>DEBUG\<close> to \<open>true\<close>, the process environment has \<open>DEBUG\<close> set to
  \<open>false\<close>, and after the load \<open>DEBUG\<close> is still \<open>false\<close>.
\<close>

theorem load_env_files_does_not_override:
  "path_exists fs4 (env_file environ4) \<and>
   map_of (dotenv_values fs4 (env_file environ4)) ''DEBUG'' = Some (Some ''true'') \<and>
   getenv environ4 ''DEBUG'' = Some ''false'' \<and>
   getenv (load_env_files fs4 environ4) ''DEBUG'' = Some ''false''"
proof (intro conjI)
  show "path_exists fs4 (env_file environ4)"
    by (simp add: path_exists_def fs4_files(1))
  show "map_of (dotenv_values fs4 (env_file environ4)) ''DEBUG'' = Some (Some ''true'')"
    by (simp add: env_file_production [OF env_environ4] dotenv_values_fs4)
  show "getenv environ4 ''DEBUG'' = Some ''false''"
    by (simp add: getenv_def environ4_def environ0_def)
  show "getenv (load_env_files fs4 environ4) ''DEBUG'' = Some ''false''"
    unfolding load_env_files_fs4 by (simp add: getenv_def environ4_def environ0_def)
qed

text \<open>
  C3, amended: if the override file selected for the runtime selector exists on disk,
  its key/value pairs are loaded into the process environment for the keys that the
  environment does not define yet; an entry that the environment has already keeps its
  value, whatever the file binds the key to.
\<close>

theorem load_env_files_fills_unset_keys:
  assumes "fs (env_file environ) = Some (RegularFile bs)"
  shows "getenv (load_env_files fs environ) k =
     (case getenv environ k of
        Some v \<Rightarrow> Some v
      | None \<Rightarrow> (case map_of (dotenv_dict bs) k of Some (Some v) \<Rightarrow> Some v | _ \<Rightarrow> None))"
proof -
  have "load_env_files fs environ = load_dotenv fs (env_file environ) False environ"
    using assms by (simp add: load_env_files_def path_exists_def)
  moreover have "dotenv_values fs (env_file environ) = dotenv_dict bs"
    using assms by (simp add: dotenv_values_def)
  ultimately show ?thesis
    using getenv_load_dotenv [of fs "env_file environ" environ k] by (simp only:)
qed

theorem load_env_files_fills_unset_keys_witness:
  "fs4 (env_file environ4) =
     Some (RegularFile [(''DEBUG'', Some ''true''), (''API_VERSION'', Some ''v2'')]) \<and>
   getenv (load_env_files fs4 environ4) ''DEBUG'' = Some ''false'' \<and>
   getenv (load_env_files fs4 environ4) ''API_VERSION'' = Some ''v2''"
  using load_env_files_fills_unset_keys [of fs4 environ4, OF fs4_files(1), of "''DEBUG''"]
    load_env_files_fills_unset_keys [of fs4 environ4, OF fs4_files(1), of "''API_VERSION''"]
    fs4_files(1)
  by (simp add: dotenv_dict_tiered getenv_def environ4_def environ0_def)


section \<open>The cache of get_settings\<close>

lemma isl_field: "isl (field f x) = (isl f \<or> isl x)"
  by (auto simp: field_def split: sum.splits)

lemma not_isl_simple:
  "\<not> isl (Inr x)"
  "\<not> isl (optional_str src name)"
  "\<not> isl (default_str src name d)"
  by (simp_all add: optional_str_def default_str_def)

lemma isl_validate_fields:
  "isl (validate_fields cd to_int src) \<longleftrightarrow>
     isl (required_str src ''supabase_url'') \<or>
     isl (required_str src ''supabase_anon_key'') \<or>
     isl (required_str src ''supabase_service_role_key'') \<or>
     isl (required_str src ''supabase_jwt_secret'') \<or>
     isl (required_str src ''jwt_secret_key'') \<or>
     isl (default_int to_int src ''jwt_access_token_expire_minutes'' 15) \<or>
     isl (default_int to_int src ''jwt_refresh_token_expire_days'' 7) \<or>
     isl (default_validated_str src ''cors_origins'' cd) \<or>
     isl (default_int to_int src ''media_max_file_size_mb'' 50) \<or>
     isl (default_int to_int src ''media_max_memory_size_mb'' 200) \<or>
     isl (default_int to_int src ''media_thumbnail_size'' 400) \<or>
     isl (default_int to_int src ''media_upload_url_expires_seconds'' 300) \<or>
     isl (default_int to_int src ''media_access_url_expires_seconds'' 3600)"
  unfolding validate_fields_def
  by (simp only: isl_field not_isl_simple simp_thms disj_assoc)

lemma isl_required_str: "isl (required_str src name) \<longleftrightarrow> src name = None"
  by (simp add: required_str_def split: option.splits)

lemma isl_default_int:
  "isl (default_int to_int src name d) \<longleftrightarrow> (\<exists>v. src name = Some v \<and> to_int v = None)"
  by (simp add: default_int_def split: option.splits)

lemma isl_default_validated_str:
  "isl (default_validated_str src name d) \<longleftrightarrow> src name = None \<and> (\<exists>xs. d = PyList xs)"
  by (simp add: default_validated_str_def split: option.splits py_value.splits)

text \<open>
  The construction succeeds when every required field is supplied, every value
  supplied for an \<open>int\<close> field converts, and \<open>cors_origins\<close> is supplied or its
  declared default is a string.
\<close>

lemma Settings_init_succeeds:
  assumes "list_all (\<lambda>f. settings_source environ fs f \<noteq> None) required_fields"
    and "list_all (\<lambda>f. case settings_source environ fs f of
                           None \<Rightarrow> True | Some v \<Rightarrow> to_int v \<noteq> None) int_fields"
    and "settings_source environ fs ''cors_origins'' \<noteq> None \<or> (\<exists>v. cd = PyStr v)"
  shows "\<exists>s. Settings_init cd to_int environ fs = Inr s"
proof -
  define src where "src = settings_source environ fs"
  have r: "src ''supabase_url'' \<noteq> None" "src ''supabase_anon_key'' \<noteq> None"
    "src ''supabase_service_role_key'' \<noteq> None" "src ''supabase_jwt_secret'' \<noteq> None"
    "src ''jwt_secret_key'' \<noteq> None"
    using assms(1) by (simp_all add: required_fields_def src_def)
  have i: "to_int v \<noteq> None"
    if "f \<in> set int_fields" and "src f = Some v" for f v
    using assms(2) that by (auto simp: list_all_iff src_def split: option.splits)
  have j: "\<not> isl (default_int to_int src f d)" if "f \<in> set int_fields" for f d
    using i [OF that] by (auto simp: isl_default_int)
  have c: "\<not> isl (default_validated_str src ''cors_origins'' cd)"
    using assms(3) by (auto simp: isl_default_validated_str src_def)
  have m: "''jwt_access_token_expire_minutes'' \<in> set int_fields"
    "''jwt_refresh_token_expire_days'' \<in> set int_fields"
    "''media_max_file_size_mb'' \<in> set int_fields"
    "''media_max_memory_size_mb'' \<in> set int_fields"
    "''media_thumbnail_size'' \<in> set int_fields"
    "''media_upload_url_expires_seconds'' \<in> set int_fields"
    "''media_access_url_expires_seconds'' \<in> set int_fields"
    by (simp_all add: int_fields_def)
  have "\<not> isl (validate_fields cd to_int src)"
    by (simp only: isl_validate_fields isl_required_str r c j [OF m(1)] j [OF m(2)]
        j [OF m(3)] j [OF m(4)] j [OF m(5)] j [OF m(6)] j [OF m(7)] simp_thms)
  then obtain s where "validate_fields cd to_int src = Inr s"
    by (cases "validate_fields cd to_int src") auto
  then show ?thesis
    by (simp add: Settings_init_def src_def)
qed

text \<open>
  Once a call has built the instance, every later call returns it, whatever the
  environment and the files are by then.
\<close>

lemma get_settings_calls_first:
  assumes "settings_global m = None"
    and "Settings_init (cors_default m) to_int environ fs = Inr s"
  shows "get_settings_calls to_int ((environ, fs) # ws) m =
     (replicate (Suc (length ws)) (Inr s), m\<lparr>settings_global := Some s\<rparr>)"
  using assms
  by (simp add: get_settings_first get_settings_calls_cached)

section \<open>The file .env\<close>













end
